theory Spec2Isabelle
  imports Main "HOL-Library.Sublist"
begin

section \<open>JavaScript values used by the handler\<close>

text \<open>
  An optional property of a JavaScript object is \<open>undefined\<close> (absent), \<open>null\<close>, or
  carries a value. The three cases are kept apart, because \<open>??\<close>, \<open>||\<close> and
  \<open>JSON.stringify\<close> treat them differently.
\<close>

datatype 'a js_opt = Undefined | Null | Val 'a

text \<open>
  A query parameter or a header of Node is \<open>string | string[] | undefined\<close>; the
  \<open>undefined\<close> case is \<open>None\<close> of the lookup.
\<close>

datatype js_val = Str string | Arr "string list"

text \<open>Truthiness, as \<open>||\<close> and \<open>!\<close> test it: the empty string and \<open>undefined\<close> are falsy,
  every array is truthy.\<close>

fun truthy :: "js_val option \<Rightarrow> bool" where
  "truthy None = False"
| "truthy (Some (Str s)) = (s \<noteq> [])"
| "truthy (Some (Arr xs)) = True"

text \<open>\<open>Array.prototype.join\<close> on an array of strings.\<close>

fun join :: "string \<Rightarrow> string list \<Rightarrow> string" where
  "join sep [] = []"
| "join sep [x] = x"
| "join sep (x # y # ys) = x @ sep @ join sep (y # ys)"

text \<open>\<open>String(v)\<close>: a string is itself, an array is its elements joined by commas.\<close>

fun String_of :: "js_val \<Rightarrow> string" where
  "String_of (Str s) = s"
| "String_of (Arr xs) = join '','' xs"

text \<open>
  What a \<open>throw\<close> or a rejected promise carries: an \<open>Error\<close> object with its \<open>name\<close>
  and \<open>message\<close>, or one of the values \<open>null\<close> and \<open>undefined\<close> (a bare
  \<open>Promise.reject()\<close> rejects with \<open>undefined\<close>). The catch block of the handler reads
  \<open>e.stack\<close> and calls \<open>e.toString()\<close>: on an \<open>Error\<close> object the second is
  \<open>Error.prototype.toString\<close>, computed from the name and the message; on \<open>null\<close> and
  \<open>undefined\<close> the first already throws a \<open>TypeError\<close>.
\<close>

datatype js_thrown = JsError string string | ThrownNull | ThrownUndefined

definition Error_toString :: "string \<Rightarrow> string \<Rightarrow> string" where
  "Error_toString name message =
     (if name = [] then message
      else if message = [] then name
      else name @ '': '' @ message)"

section \<open>Requests, parsed URLs, project data\<close>

text \<open>The result of \<open>url.parse\<close>: \<open>query\<close> is the raw query string, or an object when
  \<open>parseQueryString\<close> is true.\<close>

datatype query = QueryString "string option" | ParsedQuery "string \<Rightarrow> js_val option"

record url_object =
  pathname :: "string option"
  query :: query

text \<open>Reading a property of \<open>url.query\<close>; a property that a string does not have is
  \<open>undefined\<close>.\<close>

fun query_get :: "query \<Rightarrow> string \<Rightarrow> js_val option" where
  "query_get (ParsedQuery q) k = q k"
| "query_get (QueryString s) k = None"

record request =
  url :: "string option"
  headers :: "string \<Rightarrow> js_val option"

text \<open>\<open>ExpoAppManifest\<close>: the three properties the handler reads, and the rest of the
  project configuration.\<close>

record 'x ExpoAppManifest =
  runtimeVersion :: "string js_opt"
  sdkVersion :: "string js_opt"
  bundleUrl :: "string js_opt"
  otherFields :: 'x

text \<open>\<open>ProjectConfig\<close> as \<open>getConfig\<close> returns it, and the response of the classic
  manifest handler; of both the handler reads the property \<open>exp\<close>.\<close>

record ('x, 'c) ProjectConfig =
  config_exp :: "'x ExpoAppManifest"
  otherConfig :: 'c

record 'x ClassicManifestResponse =
  classic_exp :: "'x ExpoAppManifest"

section \<open>The manifest document and the response\<close>

datatype header_value = Num int | Text string

record launchAsset =
  key :: string
  contentType :: string
  launch_url :: "string js_opt"

record 'x extra =
  expoGoConfig :: "'x ExpoAppManifest"

record ('x, 'a) expoUpdatesManifest =
  manifest_id :: string
  createdAt :: string
  manifest_runtimeVersion :: "string js_opt"
  launchAsset :: launchAsset
  assets :: "'a list"
  metadata :: unit
  extra :: "'x extra"

text \<open>The object handed to \<open>JSON.stringify\<close> and then to \<open>res.end\<close>: the manifest
  document, or the error object \<open>{ error: ... }\<close>.\<close>

datatype ('x, 'a) body =
    ManifestDocument "('x, 'a) expoUpdatesManifest"
  | ErrorBody string

text \<open>The response as the handler acts on it: the status code, the calls of
  \<open>setHeader\<close> that returned, in order, and the bodies of the calls of \<open>end\<close> that
  returned, in order. A call that throws leaves the response as it was.\<close>

record ('x, 'a) response =
  statusCode :: nat
  setHeader_calls :: "(string \<times> header_value) list"
  end_calls :: "('x, 'a) body list"

record analytics_event =
  event_name :: string
  event_projectRoot :: string
  event_developerTool :: string
  event_runtimeVersion :: "string js_opt"

text \<open>What one call of the middleware can change: the response, the number of calls of
  \<open>next\<close>, and the calls of \<open>logError\<close> and \<open>logEvent\<close> that returned.\<close>

record ('x, 'a) effects =
  res :: "('x, 'a) response"
  next_calls :: nat
  logError_calls :: "(string \<times> string \<times> string) list"
  logEvent_calls :: "analytics_event list"

section \<open>The collaborators\<close>

text \<open>
  The functions the file imports, and the methods of the objects it is handed, are
  parameters of the model. A function that may throw or reject returns \<open>Inl\<close> of what it
  throws; \<open>url.parse\<close> is one of them (it throws a \<open>URIError\<close> on a target whose user
  information cannot be decoded). \<open>stripJSExtension\<close> and
  \<open>getRuntimeVersionForSDKVersion\<close> are string functions and return a value;
  \<open>uuid_v4\<close> and \<open>toISOString\<close> are the identifier and the time drawn during the call;
  \<open>stack\<close> is the engine's stack trace of an error, and \<open>cannot_read\<close> the message of
  the engine's \<open>TypeError\<close> for reading a property (first argument) of \<open>undefined\<close> or
  \<open>null\<close> (second argument).

  The calls made for their effect say whether they throw, and what: \<open>res.setHeader\<close> and
  \<open>res.end\<close> (given the response so far and the argument), \<open>JSON.stringify\<close> of the
  manifest document, \<open>Analytics.logEvent\<close>, \<open>ProjectUtils.logError\<close> and the continuation
  \<open>next\<close>. \<open>None\<close> is a call that returns. \<open>JSON.stringify\<close> of the error object, whose
  one property is a string, always returns.
\<close>

record ('x, 'c, 'a) env =
  parse :: "string \<Rightarrow> bool \<Rightarrow> js_thrown + url_object"
  getConfig :: "string \<Rightarrow> js_thrown + ('x, 'c) ProjectConfig"
  resolveEntryPoint :: "string \<Rightarrow> string \<Rightarrow> ('x, 'c) ProjectConfig \<Rightarrow> js_thrown + string"
  stripJSExtension :: "string \<Rightarrow> string"
  getClassicManifestResponseAsync ::
    "string \<Rightarrow> string \<Rightarrow> js_val option \<Rightarrow> js_thrown + 'x ClassicManifestResponse"
  getRuntimeVersionForSDKVersion :: "string \<Rightarrow> string"
  collectManifestAssets ::
    "string \<Rightarrow> 'x ExpoAppManifest \<Rightarrow> (string \<Rightarrow> js_thrown + string) \<Rightarrow> js_thrown + 'a list"
  uuid_v4 :: string
  toISOString :: string
  developerTool :: string
  stack :: "js_thrown \<Rightarrow> string"
  cannot_read :: "string \<Rightarrow> string \<Rightarrow> string"
  setHeader_throws :: "('x, 'a) response \<Rightarrow> string \<times> header_value \<Rightarrow> js_thrown option"
  JSON_stringify_throws :: "('x, 'a) expoUpdatesManifest \<Rightarrow> js_thrown option"
  end_throws :: "('x, 'a) response \<Rightarrow> ('x, 'a) body \<Rightarrow> js_thrown option"
  logEvent_throws :: "analytics_event \<Rightarrow> js_thrown option"
  logError_throws :: "string \<Rightarrow> string \<Rightarrow> string \<Rightarrow> js_thrown option"
  next_throws :: "js_thrown option"

section \<open>getPlatformFromRequest\<close>

text \<open>\<open>url?.query.platform\<close>, where \<open>url\<close> is \<open>req.url ? parse(req.url, true) : null\<close>:
  a missing or empty \<open>req.url\<close> gives \<open>undefined\<close>, and what \<open>parse\<close> throws is thrown.\<close>

definition query_platform :: "('x, 'c, 'a) env \<Rightarrow> request \<Rightarrow> js_thrown + js_val option" where
  "query_platform e req =
     (case url req of
        None \<Rightarrow> Inr None
      | Some s \<Rightarrow>
          if s = [] then Inr None
          else (case parse e s True of
                  Inl t \<Rightarrow> Inl t
                | Inr u \<Rightarrow> Inr (query_get (query u) ''platform'')))"

definition getPlatformFromRequest :: "('x, 'c, 'a) env \<Rightarrow> request \<Rightarrow> js_thrown + string" where
  "getPlatformFromRequest e req =
     (case query_platform e req of
        Inl t \<Rightarrow> Inl t
      | Inr q \<Rightarrow>
          (let platform = (if truthy q then q else headers req ''expo-platform'')
           in if \<not> truthy platform
              then Inl (JsError ''Error'' ''Must specify expo-platform header or query parameter'')
              else Inr (String_of (the platform))))"

section \<open>getManifestResponseAsync\<close>

text \<open>\<open>Map.prototype.set\<close> on a map kept as the list of its entries in insertion order:
  an existing key keeps its place.\<close>

fun map_set :: "'k \<Rightarrow> 'v \<Rightarrow> ('k \<times> 'v) list \<Rightarrow> ('k \<times> 'v) list" where
  "map_set k v [] = [(k, v)]"
| "map_set k v ((k', v') # kvs) =
     (if k' = k then (k, v) # kvs else (k', v') # map_set k v kvs)"

text \<open>
  The regular expression \<open>/^https?:\/\/.*?\//\<close>. After the scheme, the lazy \<open>.*?\<close>
  stops at the first slash; \<open>.\<close> does not match a line terminator, so a line feed or a
  carriage return before that slash makes the match fail. (Characters are 8-bit code
  units here, so the terminators U+2028 and U+2029 do not occur.)
\<close>

definition line_terminator :: "char \<Rightarrow> bool" where
  "line_terminator c = (c = CHR 0x0A \<or> c = CHR 0x0D)"

fun lazy_to_slash :: "string \<Rightarrow> string option" where
  "lazy_to_slash [] = None"
| "lazy_to_slash (c # cs) =
     (if c = CHR ''/'' then Some [c]
      else if line_terminator c then None
      else map_option ((#) c) (lazy_to_slash cs))"

definition match_origin :: "string \<Rightarrow> string option" where
  "match_origin b =
     (if take 8 b = ''https://'' then map_option ((@) ''https://'') (lazy_to_slash (drop 8 b))
      else if take 7 b = ''http://'' then map_option ((@) ''http://'') (lazy_to_slash (drop 7 b))
      else None)"

text \<open>The callback given to the asset collector:
  \<open>path => bundleUrl!.match(/^https?:\/\/.*?\//)![0] + 'assets/' + path\<close>.
  The two \<open>!\<close> are erased by the compiler, so reading \<open>match\<close> of a missing bundle URL
  and reading \<open>[0]\<close> of a failed match raise the engine's \<open>TypeError\<close>.\<close>

definition url_builder :: "('x, 'c, 'a) env \<Rightarrow> string js_opt \<Rightarrow> string \<Rightarrow> js_thrown + string" where
  "url_builder e b path =
     (case b of
        Undefined \<Rightarrow> Inl (JsError ''TypeError'' (cannot_read e ''match'' ''undefined''))
      | Null \<Rightarrow> Inl (JsError ''TypeError'' (cannot_read e ''match'' ''null''))
      | Val s \<Rightarrow>
          (case match_origin s of
             None \<Rightarrow> Inl (JsError ''TypeError'' (cannot_read e ''0'' ''null''))
           | Some origin \<Rightarrow> Inr (origin @ ''assets/'' @ path)))"

text \<open>Lines 54 to 58: \<open>??\<close> falls through on \<open>undefined\<close> and \<open>null\<close> only; the
  conditional tests the truthiness of \<open>sdkVersion\<close>.\<close>

definition resolveRuntimeVersion :: "('x, 'c, 'a) env \<Rightarrow> 'x ExpoAppManifest \<Rightarrow> string js_opt" where
  "resolveRuntimeVersion e c =
     (case runtimeVersion c of
        Val v \<Rightarrow> Val v
      | _ \<Rightarrow>
          (case sdkVersion c of
             Val s \<Rightarrow> if s \<noteq> [] then Val (getRuntimeVersionForSDKVersion e s) else Null
           | _ \<Rightarrow> Null))"

definition fixed_headers :: "(string \<times> header_value) list" where
  "fixed_headers =
     map_set ''content-type'' (Text ''application/json'')
       (map_set ''cache-control'' (Text ''private, max-age=0'')
         (map_set ''expo-sfv-version'' (Num 0)
           (map_set ''expo-protocol-version'' (Num 0) [])))"

definition getManifestResponseAsync ::
  "('x, 'c, 'a) env \<Rightarrow> string \<Rightarrow> request
     \<Rightarrow> js_thrown + (('x, 'a) expoUpdatesManifest \<times> (string \<times> header_value) list)" where
  "getManifestResponseAsync e projectRoot req =
     (let hs = fixed_headers in
      (case getPlatformFromRequest e req of
         Inl err \<Rightarrow> Inl err
       | Inr platform \<Rightarrow>
      (let host = headers req ''host'' in
      (case getConfig e projectRoot of
         Inl err \<Rightarrow> Inl err
       | Inr projectConfig \<Rightarrow>
      (case resolveEntryPoint e projectRoot platform projectConfig of
         Inl err \<Rightarrow> Inl err
       | Inr entryPoint \<Rightarrow>
      (let mainModuleName = stripJSExtension e entryPoint in
      (case getClassicManifestResponseAsync e projectRoot platform host of
         Inl err \<Rightarrow> Inl err
       | Inr classic \<Rightarrow>
      (let classicExpProjectConfig = classic_exp classic;
           rv = resolveRuntimeVersion e classicExpProjectConfig;
           b = bundleUrl classicExpProjectConfig in
      (case collectManifestAssets e projectRoot (config_exp projectConfig) (url_builder e b) of
         Inl err \<Rightarrow> Inl err
       | Inr collected \<Rightarrow>
           Inr (\<lparr> manifest_id = uuid_v4 e,
                  createdAt = toISOString e,
                  manifest_runtimeVersion = rv,
                  launchAsset = \<lparr> key = mainModuleName,
                                  contentType = ''application/javascript'',
                                  launch_url = b \<rparr>,
                  assets = collected,
                  metadata = (),
                  extra = \<lparr> expoGoConfig = classicExpProjectConfig \<rparr> \<rparr>,
                hs))))))))))"

section \<open>getManifestHandler\<close>

definition setHeader :: "string \<times> header_value \<Rightarrow> ('x, 'a) response \<Rightarrow> ('x, 'a) response" where
  "setHeader kv r = r\<lparr> setHeader_calls := setHeader_calls r @ [kv] \<rparr>"

definition end_response :: "('x, 'a) body \<Rightarrow> ('x, 'a) response \<Rightarrow> ('x, 'a) response" where
  "end_response b r = r\<lparr> end_calls := end_calls r @ [b] \<rparr>"

text \<open>The loop of lines 109 to 111: the first call of \<open>setHeader\<close> that throws ends it.\<close>

fun setHeaders ::
  "('x, 'c, 'a) env \<Rightarrow> (string \<times> header_value) list \<Rightarrow> ('x, 'a) response
     \<Rightarrow> js_thrown option \<times> ('x, 'a) response" where
  "setHeaders e [] r = (None, r)"
| "setHeaders e (kv # kvs) r =
     (case setHeader_throws e r kv of
        Some t \<Rightarrow> (Some t, r)
      | None \<Rightarrow> setHeaders e kvs (setHeader kv r))"

text \<open>The guard of line 97,
  \<open>!req.url || parse(req.url).pathname !== '/update-manifest-experimental'\<close>. It stands
  outside the \<open>try\<close>, so what \<open>parse\<close> throws there leaves the handler.\<close>

definition not_manifest_route :: "('x, 'c, 'a) env \<Rightarrow> request \<Rightarrow> js_thrown + bool" where
  "not_manifest_route e req =
     (case url req of
        None \<Rightarrow> Inr True
      | Some s \<Rightarrow>
          if s = [] then Inr True
          else (case parse e s False of
                  Inl t \<Rightarrow> Inl t
                | Inr u \<Rightarrow> Inr (pathname u \<noteq> Some ''/update-manifest-experimental'')))"

text \<open>
  A block of statements either completes (\<open>Inr ()\<close>) or throws (\<open>Inl\<close> of the thrown
  value); both leave the effects done so far. The \<open>try\<close> block of lines 102 to 121
  throws what \<open>getManifestResponseAsync\<close>, a \<open>res.setHeader\<close>, \<open>JSON.stringify\<close>,
  \<open>res.end\<close> or \<open>Analytics.logEvent\<close> throws, in that order of execution; the last of
  them runs after the response has been ended.
\<close>

definition try_block ::
  "('x, 'c, 'a) env \<Rightarrow> string \<Rightarrow> request \<Rightarrow> ('x, 'a) effects
     \<Rightarrow> (js_thrown + unit) \<times> ('x, 'a) effects" where
  "try_block e projectRoot req st =
     (case getManifestResponseAsync e projectRoot req of
        Inl err \<Rightarrow> (Inl err, st)
      | Inr (b, hs) \<Rightarrow>
          (case setHeaders e hs (res st) of
             (Some t, r1) \<Rightarrow> (Inl t, st\<lparr> res := r1 \<rparr>)
           | (None, r1) \<Rightarrow>
               (case JSON_stringify_throws e b of
                  Some t \<Rightarrow> (Inl t, st\<lparr> res := r1 \<rparr>)
                | None \<Rightarrow>
                    (case end_throws e r1 (ManifestDocument b) of
                       Some t \<Rightarrow> (Inl t, st\<lparr> res := r1 \<rparr>)
                     | None \<Rightarrow>
                         (let st2 = st\<lparr> res := end_response (ManifestDocument b) r1 \<rparr>;
                              ev = \<lparr> event_name = ''Serve Expo Updates Manifest'',
                                     event_projectRoot = projectRoot,
                                     event_developerTool = developerTool e,
                                     event_runtimeVersion = manifest_runtimeVersion b \<rparr>
                          in case logEvent_throws e ev of
                               Some t \<Rightarrow> (Inl t, st2)
                             | None \<Rightarrow>
                                 (Inr (), st2\<lparr> logEvent_calls := logEvent_calls st2 @ [ev] \<rparr>))))))"

text \<open>
  The \<open>catch\<close> block of lines 122 to 131. The argument \<open>e.stack\<close> of \<open>logError\<close> is
  evaluated first: for \<open>null\<close> and \<open>undefined\<close> that read throws and nothing else
  happens. Otherwise \<open>logError\<close> is called, the status code is set, and the response is
  ended with the error object; a throw of \<open>logError\<close> or of \<open>res.end\<close> leaves the block.
\<close>

definition catch_block ::
  "('x, 'c, 'a) env \<Rightarrow> string \<Rightarrow> js_thrown \<Rightarrow> ('x, 'a) effects
     \<Rightarrow> (js_thrown + unit) \<times> ('x, 'a) effects" where
  "catch_block e projectRoot err st =
     (case err of
        ThrownUndefined \<Rightarrow>
          (Inl (JsError ''TypeError'' (cannot_read e ''stack'' ''undefined'')), st)
      | ThrownNull \<Rightarrow>
          (Inl (JsError ''TypeError'' (cannot_read e ''stack'' ''null'')), st)
      | JsError name message \<Rightarrow>
          (case logError_throws e projectRoot ''expo'' (stack e err) of
             Some t \<Rightarrow> (Inl t, st)
           | None \<Rightarrow>
               (let st1 = st\<lparr> logError_calls :=
                               logError_calls st @ [(projectRoot, ''expo'', stack e err)] \<rparr>;
                    r1 = (res st1)\<lparr> statusCode := 520 \<rparr>
                in case end_throws e r1 (ErrorBody (Error_toString name message)) of
                     Some t \<Rightarrow> (Inl t, st1\<lparr> res := r1 \<rparr>)
                   | None \<Rightarrow>
                       (Inr (),
                        st1\<lparr> res := end_response (ErrorBody (Error_toString name message)) r1 \<rparr>))))"

text \<open>The middleware. Its result is how the promise it returns settles: \<open>Inr ()\<close> when
  it resolves, \<open>Inl\<close> when it rejects. The call of \<open>next\<close> is counted whether or not
  it throws.\<close>

definition getManifestHandler ::
  "('x, 'c, 'a) env \<Rightarrow> string \<Rightarrow> request \<Rightarrow> ('x, 'a) effects
     \<Rightarrow> (js_thrown + unit) \<times> ('x, 'a) effects" where
  "getManifestHandler e projectRoot req st =
     (case not_manifest_route e req of
        Inl t \<Rightarrow> (Inl t, st)
      | Inr True \<Rightarrow>
          (case next_throws e of None \<Rightarrow> Inr () | Some t \<Rightarrow> Inl t,
           st\<lparr> next_calls := next_calls st + 1 \<rparr>)
      | Inr False \<Rightarrow>
          (case try_block e projectRoot req st of
             (Inl err, st') \<Rightarrow> catch_block e projectRoot err st'
           | (Inr u, st') \<Rightarrow> (Inr u, st')))"

section \<open>A sample project and sample requests\<close>

text \<open>
  Concrete collaborators on which the model is evaluated: a project with one asset,
  served from \<open>localhost:19000\<close>, whose collector asks the URL builder for the URL of
  that asset and passes a failure of the builder on, and whose effectful calls all
  return. \<open>sample_parse\<close> splits a request target at its first question mark, as
  \<open>url.parse\<close> does for the origin-form targets used below, and throws the
  \<open>URIError\<close> of \<open>url.parse\<close> on the one absolute target, whose user information is
  not a valid percent-encoding.
\<close>

definition sample_exp :: "unit ExpoAppManifest" where
  "sample_exp =
     \<lparr> runtimeVersion = Undefined,
       sdkVersion = Val ''45.0.0'',
       bundleUrl = Val ''http://localhost:19000/index.bundle?platform=ios'',
       otherFields = () \<rparr>"

definition sample_query :: "string \<Rightarrow> string \<Rightarrow> js_val option" where
  "sample_query qs k =
     (if qs = ''platform=ios'' \<and> k = ''platform'' then Some (Str ''ios'')
      else if qs = ''platform='' \<and> k = ''platform'' then Some (Str [])
      else if qs = ''platform=ios&platform=android'' \<and> k = ''platform''
        then Some (Arr [''ios'', ''android''])
      else None)"

definition sample_parse :: "string \<Rightarrow> bool \<Rightarrow> js_thrown + url_object" where
  "sample_parse s parseQueryString =
     (if s = ''http://%E0%A4%A@h/other'' then Inl (JsError ''URIError'' ''URI malformed'')
      else
        (let p = takeWhile (\<lambda>c. c \<noteq> CHR ''?'') s;
             qs = drop (Suc (length p)) s
         in Inr \<lparr> pathname = (if p = [] then None else Some p),
                   query = (if parseQueryString then ParsedQuery (sample_query qs)
                            else QueryString (if length p < length s then Some qs else None)) \<rparr>))"

definition sample_env :: "(unit, unit, string) env" where
  "sample_env =
     \<lparr> parse = sample_parse,
       getConfig = (\<lambda>root. Inr \<lparr> config_exp = sample_exp, otherConfig = () \<rparr>),
       resolveEntryPoint = (\<lambda>root platform cfg. Inr ''index.js''),
       stripJSExtension = (\<lambda>s. if drop (length s - 3) s = ''.js'' then take (length s - 3) s else s),
       getClassicManifestResponseAsync = (\<lambda>root platform host. Inr \<lparr> classic_exp = sample_exp \<rparr>),
       getRuntimeVersionForSDKVersion = (\<lambda>v. ''exposdk:'' @ v),
       collectManifestAssets =
         (\<lambda>root ex f. case f ''icon.png'' of Inl err \<Rightarrow> Inl err | Inr u \<Rightarrow> Inr [u]),
       uuid_v4 = ''b1d2f6a0-0000-4000-8000-000000000001'',
       toISOString = ''2021-06-01T00:00:00.000Z'',
       developerTool = ''expo-cli'',
       stack = (\<lambda>err. case err of JsError n m \<Rightarrow> Error_toString n m | _ \<Rightarrow> []),
       cannot_read =
         (\<lambda>p v. ''Cannot read property '' @ [CHR 0x27] @ p @ [CHR 0x27] @ '' of '' @ v),
       setHeader_throws = (\<lambda>r kv. None),
       JSON_stringify_throws = (\<lambda>m. None),
       end_throws = (\<lambda>r b. None),
       logEvent_throws = (\<lambda>ev. None),
       logError_throws = (\<lambda>root tag message. None),
       next_throws = None \<rparr>"

definition sample_request :: request where
  "sample_request =
     \<lparr> url = Some ''/update-manifest-experimental?platform=ios'',
       headers = (\<lambda>k. if k = ''host'' then Some (Str ''localhost:19000'') else None) \<rparr>"

text \<open>The effects before the middleware runs: a response on which nothing was written.\<close>

definition fresh_effects :: "(unit, string) effects" where
  "fresh_effects =
     \<lparr> res = \<lparr> statusCode = 200, setHeader_calls = [], end_calls = [] \<rparr>,
       next_calls = 0, logError_calls = [], logEvent_calls = [] \<rparr>"

text \<open>The document that the sample project serves for \<open>sample_request\<close>.\<close>

definition sample_manifest :: "(unit, string) expoUpdatesManifest" where
  "sample_manifest =
     \<lparr> manifest_id = ''b1d2f6a0-0000-4000-8000-000000000001'',
       createdAt = ''2021-06-01T00:00:00.000Z'',
       manifest_runtimeVersion = Val ''exposdk:45.0.0'',
       launchAsset = \<lparr> key = ''index'', contentType = ''application/javascript'',
                       launch_url = Val ''http://localhost:19000/index.bundle?platform=ios'' \<rparr>,
       assets = [''http://localhost:19000/assets/icon.png''],
       metadata = (),
       extra = \<lparr> expoGoConfig = sample_exp \<rparr> \<rparr>"

text \<open>Requests for the manifest path without a platform, and with an empty
  \<open>platform\<close> parameter next to the header.\<close>

definition no_platform_request :: request where
  "no_platform_request = sample_request\<lparr> url := Some ''/update-manifest-experimental'' \<rparr>"

definition empty_platform_request :: request where
  "empty_platform_request =
     \<lparr> url = Some ''/update-manifest-experimental?platform='',
       headers = (\<lambda>k. if k = ''expo-platform'' then Some (Str ''ios'') else None) \<rparr>"

text \<open>The sample project with a given classic manifest; without assets (its collector
  never calls the URL builder) and with a given bundle URL; and served under the
  \<open>exp\<close> scheme.\<close>

definition classic_env :: "unit ExpoAppManifest \<Rightarrow> (unit, unit, string) env" where
  "classic_env c =
     sample_env\<lparr> getClassicManifestResponseAsync :=
                   \<lambda>root platform host. Inr \<lparr> classic_exp = c \<rparr> \<rparr>"

definition no_assets_env :: "string js_opt \<Rightarrow> (unit, unit, string) env" where
  "no_assets_env b =
     sample_env\<lparr> getClassicManifestResponseAsync :=
                   \<lambda>root platform host. Inr \<lparr> classic_exp = sample_exp\<lparr> bundleUrl := b \<rparr> \<rparr>,
                 collectManifestAssets := \<lambda>root ex f. Inr [] \<rparr>"

definition exp_scheme_env :: "(unit, unit, string) env" where
  "exp_scheme_env =
     sample_env\<lparr> getClassicManifestResponseAsync :=
       \<lambda>root platform host.
         Inr \<lparr> classic_exp = sample_exp\<lparr> bundleUrl := Val ''exp://localhost:19000/index.bundle'' \<rparr> \<rparr> \<rparr>"

text \<open>A request whose \<open>platform\<close> parameter occurs twice, and a request whose target
  \<open>url.parse\<close> rejects.\<close>

definition repeated_platform_request :: request where
  "repeated_platform_request =
     sample_request\<lparr> url := Some ''/update-manifest-experimental?platform=ios&platform=android'' \<rparr>"

definition uri_error_request :: request where
  "uri_error_request = sample_request\<lparr> url := Some ''http://%E0%A4%A@h/other'' \<rparr>"



definition logError_throws_env :: "(unit, unit, string) env" where
  "logError_throws_env =
     sample_env\<lparr> logError_throws := \<lambda>root tag message. Some (JsError ''Error'' ''logger unavailable'') \<rparr>"

definition end_throws_env :: "(unit, unit, string) env" where
  "end_throws_env =
     sample_env\<lparr> end_throws := \<lambda>r b. Some (JsError ''Error'' ''socket closed'') \<rparr>"

section \<open>Basic facts\<close>

lemma fixed_headers_list:
  "fixed_headers =
     [(''expo-protocol-version'', Num 0), (''expo-sfv-version'', Num 0),
      (''cache-control'', Text ''private, max-age=0''),
      (''content-type'', Text ''application/json'')]"
  by (simp add: fixed_headers_def)

lemma response_headers_fixed:
  "getManifestResponseAsync e root req = Inr (m, hs) \<Longrightarrow> hs = fixed_headers"
  by (auto simp: getManifestResponseAsync_def Let_def split: sum.splits)

lemma route_matched:
  "url req = Some u \<Longrightarrow> u \<noteq> [] \<Longrightarrow> parse e u False = Inr pu \<Longrightarrow>
   pathname pu = Some ''/update-manifest-experimental'' \<Longrightarrow>
   not_manifest_route e req = Inr False"
  by (simp add: not_manifest_route_def)

lemma handler_on_route:
  "not_manifest_route e req = Inr False \<Longrightarrow>
   getManifestHandler e root req st =
     (case try_block e root req st of
        (Inl err, st') \<Rightarrow> catch_block e root err st'
      | (Inr u, st') \<Rightarrow> (Inr u, st'))"
  by (simp add: getManifestHandler_def)


lemma setHeaders_complete:
  "fst (setHeaders e hs r) = None \<Longrightarrow>
   snd (setHeaders e hs r) = r\<lparr> setHeader_calls := setHeader_calls r @ hs \<rparr>"
  by (induction hs arbitrary: r) (simp_all add: setHeader_def split: option.splits)

lemma try_block_build_throws:
  "getManifestResponseAsync e root req = Inl t \<Longrightarrow> try_block e root req st = (Inl t, st)"
  by (simp add: try_block_def)

lemma try_block_completes:
  assumes "try_block e root req st = (Inr u, s)"
  shows "\<exists>m hs. getManifestResponseAsync e root req = Inr (m, hs) \<and>
           fst (setHeaders e hs (res st)) = None \<and>
           s = st\<lparr> res := (res st)\<lparr> setHeader_calls := setHeader_calls (res st) @ hs,
                                    end_calls := end_calls (res st) @ [ManifestDocument m] \<rparr>,
                    logEvent_calls := logEvent_calls st @
                      [\<lparr> event_name = ''Serve Expo Updates Manifest'',
                          event_projectRoot = root,
                          event_developerTool = developerTool e,
                          event_runtimeVersion = manifest_runtimeVersion m \<rparr>] \<rparr>"
proof (cases "getManifestResponseAsync e root req")
  case (Inl t)
  with assms show ?thesis by (simp add: try_block_def)
next
  case (Inr p)
  obtain m hs where p: "p = (m, hs)" by (cases p)
  obtain t r1 where sh: "setHeaders e hs (res st) = (t, r1)" by (cases "setHeaders e hs (res st)")
  from assms Inr p sh have t: "t = None"
    by (cases t) (simp_all add: try_block_def)
  with sh setHeaders_complete [of e hs "res st"]
  have r1: "r1 = (res st)\<lparr> setHeader_calls := setHeader_calls (res st) @ hs \<rparr>" by simp
  from assms Inr p sh t r1 show ?thesis
    by (auto simp: try_block_def Let_def end_response_def split: option.splits)
qed


lemma try_block_setHeader_calls:
  assumes "getManifestResponseAsync e root req = Inr (m, hs)"
    and "fst (setHeaders e hs (res st)) = None"
  shows "setHeader_calls (res (snd (try_block e root req st))) = setHeader_calls (res st) @ hs"
proof -
  obtain t r1 where sh: "setHeaders e hs (res st) = (t, r1)" by (cases "setHeaders e hs (res st)")
  with assms(2) setHeaders_complete [of e hs "res st"]
  have "t = None" "r1 = (res st)\<lparr> setHeader_calls := setHeader_calls (res st) @ hs \<rparr>"
    by simp_all
  with assms(1) sh show ?thesis
    by (simp add: try_block_def Let_def end_response_def split: option.splits)
qed

lemma catch_block_setHeader_calls:
  "setHeader_calls (res (snd (catch_block e root t s))) = setHeader_calls (res s)"
  by (simp add: catch_block_def end_response_def Let_def split: js_thrown.splits option.splits)

lemma catch_block_Error:
  assumes "logError_throws e root ''expo'' (stack e (JsError n m)) = None"
    and "end_throws e ((res st)\<lparr> statusCode := 520 \<rparr>) (ErrorBody (Error_toString n m)) = None"
  shows "catch_block e root (JsError n m) st =
     (Inr (),
      st\<lparr> logError_calls := logError_calls st @ [(root, ''expo'', stack e (JsError n m))],
          res := (res st)\<lparr> statusCode := 520,
                            end_calls := end_calls (res st) @ [ErrorBody (Error_toString n m)] \<rparr> \<rparr>)"
  using assms by (simp add: catch_block_def end_response_def Let_def)

lemma handler_on_build_Error:
  assumes "not_manifest_route e req = Inr False"
    and "getManifestResponseAsync e root req = Inl (JsError n m)"
    and "logError_throws e root ''expo'' (stack e (JsError n m)) = None"
    and "end_throws e ((res st)\<lparr> statusCode := 520 \<rparr>) (ErrorBody (Error_toString n m)) = None"
  shows "getManifestHandler e root req st =
     (Inr (),
      st\<lparr> logError_calls := logError_calls st @ [(root, ''expo'', stack e (JsError n m))],
          res := (res st)\<lparr> statusCode := 520,
                            end_calls := end_calls (res st) @ [ErrorBody (Error_toString n m)] \<rparr> \<rparr>)"
  using handler_on_route [OF assms(1), of root st] try_block_build_throws [OF assms(2), of st]
    catch_block_Error [OF assms(3,4)]
  by simp

lemmas sample_defs =
  sample_env_def sample_parse_def sample_query_def sample_exp_def sample_request_def
  fresh_effects_def

lemmas build_defs =
  getManifestResponseAsync_def getPlatformFromRequest_def query_platform_def url_builder_def
  match_origin_def line_terminator_def resolveRuntimeVersion_def Let_def

lemmas effect_defs =
  catch_block_def end_response_def setHeader_def Error_toString_def fixed_headers_list Let_def

lemma sample_route:
  "url sample_request = Some ''/update-manifest-experimental?platform=ios'' \<and>
   parse sample_env ''/update-manifest-experimental?platform=ios'' False =
     Inr \<lparr> pathname = Some ''/update-manifest-experimental'',
           query = QueryString (Some ''platform=ios'') \<rparr>"
  by (simp add: sample_defs)

lemma sample_platform: "getPlatformFromRequest sample_env sample_request = Inr ''ios''"
  by (simp add: getPlatformFromRequest_def query_platform_def sample_defs)

lemma sample_response:
  "getManifestResponseAsync sample_env ''/app'' sample_request = Inr (sample_manifest, fixed_headers)"
  by (simp add: getManifestResponseAsync_def sample_platform)
     (simp add: sample_defs sample_manifest_def url_builder_def match_origin_def
        line_terminator_def resolveRuntimeVersion_def Let_def)

lemma no_platform_route:
  "url no_platform_request = Some ''/update-manifest-experimental'' \<and>
   parse sample_env ''/update-manifest-experimental'' False =
     Inr \<lparr> pathname = Some ''/update-manifest-experimental'', query = QueryString None \<rparr>"
  by (simp add: no_platform_request_def sample_defs)



section \<open>The response envelope\<close>







text \<open>
  C3, as stated, has \<open>next()\<close> called once on every request that is not for the manifest
  path. The \<open>url.parse\<close> of line 97 stands outside the \<open>try\<close>: on the target
  \<open>http://%E0%A4%A@h/other\<close>, whose path is \<open>/other\<close>, it throws a \<open>URIError\<close>, the handler
  rejects with it and \<open>next\<close> is not called.
\<close>

theorem parse_throws_counterexample:
  "url uri_error_request = Some ''http://%E0%A4%A@h/other'' \<and>
   getManifestHandler sample_env ''/app'' uri_error_request fresh_effects =
     (Inl (JsError ''URIError'' ''URI malformed''), fresh_effects) \<and>
   next_calls fresh_effects = 0"
  by (simp add: getManifestHandler_def not_manifest_route_def uri_error_request_def sample_defs)

text \<open>
  C3, amended. When \<open>req.url\<close> is absent (undefined or empty), or \<open>url.parse\<close> accepts it
  with a pathname that is not \<open>/update-manifest-experimental\<close>, the handler does
  nothing but call \<open>next()\<close> once: the response (status code, headers, bodies) and both
  logs are what they were, and the handler settles as \<open>next\<close> does. When \<open>url.parse\<close>
  throws on \<open>req.url\<close>, the response is untouched as well, but the handler rejects with
  what was thrown and \<open>next\<close> is not called.
\<close>

theorem passthrough_unmatched:
  "(url req = None \<or> url req = Some [] \<or>
      (\<exists>u pu. url req = Some u \<and> parse e u False = Inr pu \<and>
               pathname pu \<noteq> Some ''/update-manifest-experimental'') \<longrightarrow>
      getManifestHandler e root req st =
        (case next_throws e of None \<Rightarrow> Inr () | Some t \<Rightarrow> Inl t,
         st\<lparr> next_calls := next_calls st + 1 \<rparr>) \<and>
      res (snd (getManifestHandler e root req st)) = res st \<and>
      next_calls (snd (getManifestHandler e root req st)) = next_calls st + 1) \<and>
   (\<forall>u t. url req = Some u \<and> u \<noteq> [] \<and> parse e u False = Inl t \<longrightarrow>
      getManifestHandler e root req st = (Inl t, st))"
proof -
  have "not_manifest_route e req = Inr True"
    if "url req = None \<or> url req = Some [] \<or>
      (\<exists>u pu. url req = Some u \<and> parse e u False = Inr pu \<and>
               pathname pu \<noteq> Some ''/update-manifest-experimental'')"
    using that by (auto simp: not_manifest_route_def)
  then have "getManifestHandler e root req st =
        (case next_throws e of None \<Rightarrow> Inr () | Some t \<Rightarrow> Inl t,
         st\<lparr> next_calls := next_calls st + 1 \<rparr>)"
    if "url req = None \<or> url req = Some [] \<or>
      (\<exists>u pu. url req = Some u \<and> parse e u False = Inr pu \<and>
               pathname pu \<noteq> Some ''/update-manifest-experimental'')"
    using that by (simp add: getManifestHandler_def)
  moreover have "getManifestHandler e root req st = (Inl t, st)"
    if "url req = Some u" "u \<noteq> []" "parse e u False = Inl t" for u t
    using that by (simp add: getManifestHandler_def not_manifest_route_def)
  ultimately show ?thesis by simp
qed

theorem passthrough_unmatched_witness:
  "getManifestHandler sample_env ''/app'' (sample_request\<lparr> url := None \<rparr>) fresh_effects =
     (Inr (), fresh_effects\<lparr> next_calls := 1 \<rparr>) \<and>
   getManifestHandler sample_env ''/app'' (sample_request\<lparr> url := Some ''/status?platform=ios'' \<rparr>)
       fresh_effects =
     (Inr (), fresh_effects\<lparr> next_calls := 1 \<rparr>) \<and>
   getManifestHandler sample_env ''/app'' uri_error_request fresh_effects =
     (Inl (JsError ''URIError'' ''URI malformed''), fresh_effects)"
proof -
  let ?a = "sample_request\<lparr> url := None \<rparr>"
  let ?b = "sample_request\<lparr> url := Some ''/status?platform=ios'' \<rparr>"
  have a: "url ?a = None \<or> url ?a = Some [] \<or>
      (\<exists>u pu. url ?a = Some u \<and> parse sample_env u False = Inr pu \<and>
               pathname pu \<noteq> Some ''/update-manifest-experimental'')"
    by simp
  have b: "url ?b = None \<or> url ?b = Some [] \<or>
      (\<exists>u pu. url ?b = Some u \<and> parse sample_env u False = Inr pu \<and>
               pathname pu \<noteq> Some ''/update-manifest-experimental'')"
    by (simp add: sample_defs)
  have c: "url uri_error_request = Some ''http://%E0%A4%A@h/other'' \<and>
           ''http://%E0%A4%A@h/other'' \<noteq> [] \<and>
           parse sample_env ''http://%E0%A4%A@h/other'' False =
             Inl (JsError ''URIError'' ''URI malformed'')"
    by (simp add: uri_error_request_def sample_defs)
  have n: "next_calls fresh_effects = 0" "next_throws sample_env = None"
    by (simp_all add: fresh_effects_def sample_env_def)
  from passthrough_unmatched [of ?a sample_env "''/app''" fresh_effects] a n
  have "getManifestHandler sample_env ''/app'' ?a fresh_effects =
     (Inr (), fresh_effects\<lparr> next_calls := 1 \<rparr>)" by simp
  moreover from passthrough_unmatched [of ?b sample_env "''/app''" fresh_effects] b n
  have "getManifestHandler sample_env ''/app'' ?b fresh_effects =
     (Inr (), fresh_effects\<lparr> next_calls := 1 \<rparr>)" by simp
  moreover from passthrough_unmatched [of uri_error_request sample_env "''/app''" fresh_effects] c
  have "getManifestHandler sample_env ''/app'' uri_error_request fresh_effects =
     (Inl (JsError ''URIError'' ''URI malformed''), fresh_effects)" by blast
  ultimately show ?thesis by (intro conjI)
qed

text \<open>
  C9. When \<open>getManifestResponseAsync\<close> returns, its headers are the four fixed entries
  in the order of insertion. On a request for the manifest path the handler then calls
  \<open>res.setHeader\<close> for them in that order: when these calls return, they are the
  headers written, whatever happens afterwards; and a successful response, one whose
  \<open>try\<close> block completes, has them all, with the status code it had.
\<close>

theorem success_headers_fixed_in_order:
  assumes "getManifestResponseAsync e root req = Inr (m, hs)"
  shows "hs = [(''expo-protocol-version'', Num 0), (''expo-sfv-version'', Num 0),
               (''cache-control'', Text ''private, max-age=0''),
               (''content-type'', Text ''application/json'')] \<and>
         (\<forall>u pu. url req = Some u \<and> u \<noteq> [] \<and> parse e u False = Inr pu \<and>
              pathname pu = Some ''/update-manifest-experimental'' \<longrightarrow>
              (fst (setHeaders e hs (res st)) = None \<longrightarrow>
                 setHeader_calls (res (snd (getManifestHandler e root req st))) =
                   setHeader_calls (res st) @ hs) \<and>
              (fst (try_block e root req st) = Inr () \<longrightarrow>
                 fst (setHeaders e hs (res st)) = None \<and>
                 fst (getManifestHandler e root req st) = Inr () \<and>
                 statusCode (res (snd (getManifestHandler e root req st))) = statusCode (res st) \<and>
                 end_calls (res (snd (getManifestHandler e root req st))) =
                   end_calls (res st) @ [ManifestDocument m]))"
proof -
  have hs: "hs = fixed_headers" using assms by (rule response_headers_fixed)
  have written: "setHeader_calls (res (snd (getManifestHandler e root req st))) =
                   setHeader_calls (res st) @ hs"
    if route: "not_manifest_route e req = Inr False"
      and loop: "fst (setHeaders e hs (res st)) = None"
  proof -
    obtain out s where tb: "try_block e root req st = (out, s)"
      by (cases "try_block e root req st")
    from try_block_setHeader_calls [OF assms loop] tb
    have s: "setHeader_calls (res s) = setHeader_calls (res st) @ hs" by simp
    show ?thesis
    proof (cases out)
      case (Inl t)
      with tb s handler_on_route [OF route, of root st]
        catch_block_setHeader_calls [of e root t s]
      show ?thesis by simp
    next
      case (Inr v)
      with tb s handler_on_route [OF route, of root st] show ?thesis by simp
    qed
  qed
  have success: "fst (setHeaders e hs (res st)) = None \<and>
                 fst (getManifestHandler e root req st) = Inr () \<and>
                 statusCode (res (snd (getManifestHandler e root req st))) = statusCode (res st) \<and>
                 end_calls (res (snd (getManifestHandler e root req st))) =
                   end_calls (res st) @ [ManifestDocument m]"
    if route: "not_manifest_route e req = Inr False"
      and complete: "fst (try_block e root req st) = Inr ()"
  proof -
    obtain s where tb: "try_block e root req st = (Inr (), s)"
      using complete by (cases "try_block e root req st") simp
    from try_block_completes [OF tb] assms tb handler_on_route [OF route, of root st]
    show ?thesis by auto
  qed
  from written success route_matched [of req _ e] hs show ?thesis
    by (simp add: fixed_headers_list)
qed

theorem success_headers_fixed_in_order_witness:
  "setHeader_calls (res (snd (getManifestHandler sample_env ''/app'' sample_request fresh_effects))) =
     [(''expo-protocol-version'', Num 0), (''expo-sfv-version'', Num 0),
      (''cache-control'', Text ''private, max-age=0''),
      (''content-type'', Text ''application/json'')]"
proof -
  have r: "url sample_request = Some ''/update-manifest-experimental?platform=ios'' \<and>
        ''/update-manifest-experimental?platform=ios'' \<noteq> [] \<and>
        parse sample_env ''/update-manifest-experimental?platform=ios'' False =
          Inr \<lparr> pathname = Some ''/update-manifest-experimental'',
                query = QueryString (Some ''platform=ios'') \<rparr> \<and>
        pathname \<lparr> pathname = Some ''/update-manifest-experimental'',
                   query = QueryString (Some ''platform=ios'') \<rparr> =
          Some ''/update-manifest-experimental''"
    using sample_route by simp
  have l: "fst (setHeaders sample_env fixed_headers (res fresh_effects)) = None"
    by (simp add: fixed_headers_list sample_env_def)
  have "setHeader_calls (res fresh_effects) = []" by (simp add: fresh_effects_def)
  moreover from success_headers_fixed_in_order [OF sample_response, of fresh_effects] r l
  have "setHeader_calls (res (snd (getManifestHandler sample_env ''/app'' sample_request
      fresh_effects))) = setHeader_calls (res fresh_effects) @ fixed_headers"
    by blast
  ultimately show ?thesis by (simp add: fixed_headers_list)
qed

section \<open>The steps of the builder and the URL pattern\<close>

lemma response_success_steps:
  assumes "getManifestResponseAsync e root req = Inr (m, hs)"
  shows "\<exists>p cfg ep cl collected.
           getPlatformFromRequest e req = Inr p \<and>
           getConfig e root = Inr cfg \<and>
           resolveEntryPoint e root p cfg = Inr ep \<and>
           getClassicManifestResponseAsync e root p (headers req ''host'') = Inr cl \<and>
           collectManifestAssets e root (config_exp cfg)
             (url_builder e (bundleUrl (classic_exp cl))) = Inr collected \<and>
           m = \<lparr> manifest_id = uuid_v4 e,
                 createdAt = toISOString e,
                 manifest_runtimeVersion = resolveRuntimeVersion e (classic_exp cl),
                 launchAsset = \<lparr> key = stripJSExtension e ep,
                                 contentType = ''application/javascript'',
                                 launch_url = bundleUrl (classic_exp cl) \<rparr>,
                 assets = collected,
                 metadata = (),
                 extra = \<lparr> expoGoConfig = classic_exp cl \<rparr> \<rparr> \<and>
           hs = fixed_headers"
  using assms
  by (auto simp: getManifestResponseAsync_def Let_def split: sum.splits)

lemma response_of_steps:
  assumes "getPlatformFromRequest e req = Inr p"
    and "getConfig e root = Inr cfg"
    and "resolveEntryPoint e root p cfg = Inr ep"
    and "getClassicManifestResponseAsync e root p (headers req ''host'') = Inr cl"
  shows "getManifestResponseAsync e root req =
           (case collectManifestAssets e root (config_exp cfg)
                   (url_builder e (bundleUrl (classic_exp cl))) of
              Inl err \<Rightarrow> Inl err
            | Inr collected \<Rightarrow>
                Inr (\<lparr> manifest_id = uuid_v4 e,
                       createdAt = toISOString e,
                       manifest_runtimeVersion = resolveRuntimeVersion e (classic_exp cl),
                       launchAsset = \<lparr> key = stripJSExtension e ep,
                                       contentType = ''application/javascript'',
                                       launch_url = bundleUrl (classic_exp cl) \<rparr>,
                       assets = collected,
                       metadata = (),
                       extra = \<lparr> expoGoConfig = classic_exp cl \<rparr> \<rparr>,
                     fixed_headers))"
  using assms
  by (simp add: getManifestResponseAsync_def Let_def)

lemma lazy_to_slash_Some:
  "lazy_to_slash s = Some p \<longleftrightarrow>
     (\<exists>host rest. s = host @ ''/'' @ rest \<and> p = host @ ''/'' \<and>
        (\<forall>c \<in> set host. c \<noteq> CHR ''/'' \<and> \<not> line_terminator c))"
proof (induction s arbitrary: p)
  case Nil
  then show ?case by simp
next
  case (Cons c cs)
  show ?case
  proof (cases "c = CHR ''/''")
    case True
    have "(\<exists>host rest. c # cs = host @ ''/'' @ rest \<and> p = host @ ''/'' \<and>
        (\<forall>c \<in> set host. c \<noteq> CHR ''/'' \<and> \<not> line_terminator c)) \<longleftrightarrow> p = ''/''"
    proof
      assume "\<exists>host rest. c # cs = host @ ''/'' @ rest \<and> p = host @ ''/'' \<and>
        (\<forall>c \<in> set host. c \<noteq> CHR ''/'' \<and> \<not> line_terminator c)"
      then obtain host rest where h: "c # cs = host @ ''/'' @ rest" "p = host @ ''/''"
        "\<forall>c \<in> set host. c \<noteq> CHR ''/'' \<and> \<not> line_terminator c" by blast
      from h(1,3) True have "host = []" by (cases host) auto
      with h(2) show "p = ''/''" by simp
    next
      assume "p = ''/''"
      with True have "c # cs = [] @ ''/'' @ cs \<and> p = [] @ ''/''" by simp
      then show "\<exists>host rest. c # cs = host @ ''/'' @ rest \<and> p = host @ ''/'' \<and>
        (\<forall>c \<in> set host. c \<noteq> CHR ''/'' \<and> \<not> line_terminator c)"
        by (metis empty_iff list.set(1))
    qed
    with True show ?thesis by auto
  next
    case False
    note notslash = False
    show ?thesis
    proof (cases "line_terminator c")
      case True
      have "\<not> (\<exists>host rest. c # cs = host @ ''/'' @ rest \<and> p = host @ ''/'' \<and>
        (\<forall>c \<in> set host. c \<noteq> CHR ''/'' \<and> \<not> line_terminator c))"
      proof
        assume "\<exists>host rest. c # cs = host @ ''/'' @ rest \<and> p = host @ ''/'' \<and>
        (\<forall>c \<in> set host. c \<noteq> CHR ''/'' \<and> \<not> line_terminator c)"
        then obtain host rest where h: "c # cs = host @ ''/'' @ rest"
          "\<forall>c \<in> set host. c \<noteq> CHR ''/'' \<and> \<not> line_terminator c" by blast
        from h(1) notslash obtain host' where "host = c # host'" by (cases host) auto
        with h(2) True show False by simp
      qed
      with True notslash show ?thesis by simp
    next
      case False
      have "(\<exists>host rest. c # cs = host @ ''/'' @ rest \<and> p = host @ ''/'' \<and>
        (\<forall>c \<in> set host. c \<noteq> CHR ''/'' \<and> \<not> line_terminator c)) \<longleftrightarrow>
        (\<exists>p'. p = c # p' \<and> (\<exists>host rest. cs = host @ ''/'' @ rest \<and> p' = host @ ''/'' \<and>
        (\<forall>c \<in> set host. c \<noteq> CHR ''/'' \<and> \<not> line_terminator c)))"
      proof
        assume "\<exists>host rest. c # cs = host @ ''/'' @ rest \<and> p = host @ ''/'' \<and>
        (\<forall>c \<in> set host. c \<noteq> CHR ''/'' \<and> \<not> line_terminator c)"
        then obtain host rest where h: "c # cs = host @ ''/'' @ rest" "p = host @ ''/''"
          "\<forall>c \<in> set host. c \<noteq> CHR ''/'' \<and> \<not> line_terminator c" by blast
        from h(1) notslash obtain host' where host: "host = c # host'" by (cases host) auto
        with h have "p = c # (host' @ ''/'')" "cs = host' @ ''/'' @ rest"
          "\<forall>c \<in> set host'. c \<noteq> CHR ''/'' \<and> \<not> line_terminator c" by simp_all
        then show "\<exists>p'. p = c # p' \<and> (\<exists>host rest. cs = host @ ''/'' @ rest \<and> p' = host @ ''/'' \<and>
        (\<forall>c \<in> set host. c \<noteq> CHR ''/'' \<and> \<not> line_terminator c))" by blast
      next
        assume "\<exists>p'. p = c # p' \<and> (\<exists>host rest. cs = host @ ''/'' @ rest \<and> p' = host @ ''/'' \<and>
        (\<forall>c \<in> set host. c \<noteq> CHR ''/'' \<and> \<not> line_terminator c))"
        then obtain p' host rest where h: "p = c # p'" "cs = host @ ''/'' @ rest"
          "p' = host @ ''/''" "\<forall>c \<in> set host. c \<noteq> CHR ''/'' \<and> \<not> line_terminator c" by blast
        with notslash False have "c # cs = (c # host) @ ''/'' @ rest \<and> p = (c # host) @ ''/'' \<and>
          (\<forall>c \<in> set (c # host). c \<noteq> CHR ''/'' \<and> \<not> line_terminator c)" by simp
        then show "\<exists>host rest. c # cs = host @ ''/'' @ rest \<and> p = host @ ''/'' \<and>
        (\<forall>c \<in> set host. c \<noteq> CHR ''/'' \<and> \<not> line_terminator c)" by blast
      qed
      with False notslash Cons.IH show ?thesis by auto
    qed
  qed
qed

lemma match_origin_Some:
  "match_origin b = Some p \<longleftrightarrow>
     (\<exists>scheme host rest. (scheme = ''http'' \<or> scheme = ''https'') \<and>
        (\<forall>c \<in> set host. c \<noteq> CHR ''/'' \<and> \<not> line_terminator c) \<and>
        b = scheme @ ''://'' @ host @ ''/'' @ rest \<and> p = scheme @ ''://'' @ host @ ''/'')"
  (is "?L \<longleftrightarrow> ?R")
proof (cases "take 8 b = ''https://''")
  case True
  then obtain r where b: "b = ''https://'' @ r"
    by (metis append_take_drop_id)
  have nothttp: "\<not> (\<exists>host rest. b = ''http'' @ ''://'' @ host @ ''/'' @ rest)"
    using b by auto
  have "?L \<longleftrightarrow> (\<exists>q. lazy_to_slash r = Some q \<and> p = ''https://'' @ q)"
    using b by (auto simp: match_origin_def)
  also have "\<dots> \<longleftrightarrow> (\<exists>host rest. r = host @ ''/'' @ rest \<and> p = ''https://'' @ host @ ''/'' \<and>
        (\<forall>c \<in> set host. c \<noteq> CHR ''/'' \<and> \<not> line_terminator c))"
    by (auto simp: lazy_to_slash_Some)
  also have "\<dots> \<longleftrightarrow> (\<exists>host rest. (\<forall>c \<in> set host. c \<noteq> CHR ''/'' \<and> \<not> line_terminator c) \<and>
        b = ''https'' @ ''://'' @ host @ ''/'' @ rest \<and> p = ''https'' @ ''://'' @ host @ ''/'')"
    using b by auto
  also have "\<dots> \<longleftrightarrow> ?R"
    using nothttp by blast
  finally show ?thesis .
next
  case nothttps: False
  then have nothttps': "\<not> (\<exists>host rest. b = ''https'' @ ''://'' @ host @ ''/'' @ rest)"
    by auto
  show ?thesis
  proof (cases "take 7 b = ''http://''")
    case True
    then obtain r where b: "b = ''http://'' @ r"
      by (metis append_take_drop_id)
    have "?L \<longleftrightarrow> (\<exists>q. lazy_to_slash r = Some q \<and> p = ''http://'' @ q)"
      using b nothttps by (auto simp: match_origin_def)
    also have "\<dots> \<longleftrightarrow> (\<exists>host rest. r = host @ ''/'' @ rest \<and> p = ''http://'' @ host @ ''/'' \<and>
        (\<forall>c \<in> set host. c \<noteq> CHR ''/'' \<and> \<not> line_terminator c))"
      by (auto simp: lazy_to_slash_Some)
    also have "\<dots> \<longleftrightarrow> (\<exists>host rest. (\<forall>c \<in> set host. c \<noteq> CHR ''/'' \<and> \<not> line_terminator c) \<and>
        b = ''http'' @ ''://'' @ host @ ''/'' @ rest \<and> p = ''http'' @ ''://'' @ host @ ''/'')"
      using b by auto
    also have "\<dots> \<longleftrightarrow> ?R"
      using nothttps' by blast
    finally show ?thesis .
  next
    case False
    then have "\<not> (\<exists>host rest. b = ''http'' @ ''://'' @ host @ ''/'' @ rest)"
      by auto
    with nothttps' have "\<not> ?R" by blast
    moreover from False nothttps have "\<not> ?L" by (simp add: match_origin_def)
    ultimately show ?thesis by blast
  qed
qed

lemma no_assets_response:
  "getManifestResponseAsync (no_assets_env b) ''/app'' sample_request =
     Inr (sample_manifest\<lparr> launchAsset := \<lparr> key = ''index'',
                                           contentType = ''application/javascript'',
                                           launch_url = b \<rparr>,
                          assets := [],
                          extra := \<lparr> expoGoConfig = sample_exp\<lparr> bundleUrl := b \<rparr> \<rparr> \<rparr>,
          fixed_headers)"
  by (simp add: getManifestResponseAsync_def getPlatformFromRequest_def query_platform_def
      no_assets_env_def sample_defs sample_manifest_def resolveRuntimeVersion_def Let_def)

section \<open>Platform resolution\<close>

text \<open>
  C5, as stated, lets the query parameter win whenever both sources are present. For the
  request target \<open>/update-manifest-experimental?platform=\<close> the parameter is present
  with the empty string as its value, \<open>||\<close> takes it for falsy, and the header's
  \<open>ios\<close> is the platform.
\<close>

theorem query_platform_empty_counterexample:
  "query_platform sample_env empty_platform_request = Inr (Some (Str [])) \<and>
   headers empty_platform_request ''expo-platform'' = Some (Str ''ios'') \<and>
   getPlatformFromRequest sample_env empty_platform_request = Inr ''ios'' \<and>
   getPlatformFromRequest sample_env empty_platform_request \<noteq> Inr []"
  by (simp add: getPlatformFromRequest_def query_platform_def empty_platform_request_def
      sample_defs)

text \<open>
  C5, amended. When the query parameter \<open>platform\<close> and the header
  \<open>expo-platform\<close> are both present and the value of the parameter is truthy (a string
  other than the empty one, or the array of a repeated parameter), the platform is
  \<open>String\<close> of the parameter's value: the string itself, or the array's elements joined
  by commas. The header is not consulted.
\<close>

theorem query_platform_precedence:
  assumes "query_platform e req = Inr (Some v)" and "truthy (Some v)"
    and "headers req ''expo-platform'' = Some h"
  shows "getPlatformFromRequest e req = Inr (String_of v)"
  using assms(1,2) by (simp add: getPlatformFromRequest_def)

theorem query_platform_precedence_witness:
  "getPlatformFromRequest sample_env
     (sample_request\<lparr> headers := \<lambda>k. if k = ''expo-platform'' then Some (Str ''android'') else None \<rparr>)
   = Inr ''ios''"
proof -
  let ?r = "sample_request\<lparr> headers := \<lambda>k. if k = ''expo-platform'' then Some (Str ''android'') else None \<rparr>"
  have q: "query_platform sample_env ?r = Inr (Some (Str ''ios''))"
    by (simp add: query_platform_def sample_defs)
  have t: "truthy (Some (Str ''ios''))" by simp
  have h: "headers ?r ''expo-platform'' = Some (Str ''android'')" by simp
  from query_platform_precedence [OF q t h] show ?thesis by simp
qed

lemma join_empty: "join '','' xs = [] \<longleftrightarrow> xs = [] \<or> xs = [[]]"
  by (induction "'',''" xs rule: join.induct) simp_all

text \<open>
  C6, as stated, has resolution succeed with a non-empty string whenever either source
  is present, and the handler answer 520 whenever both are missing. With the parameter
  present and empty, and no header, resolution fails like a request that has neither;
  with a header whose value is the empty array it returns the empty string. And with
  both missing, a \<open>logError\<close> or a \<open>res.end\<close> that throws in the catch block leaves the
  response without a body, in the first case with the status code 200.
\<close>

theorem platform_present_empty_counterexample:
  "query_platform sample_env (sample_request\<lparr> url := Some ''/update-manifest-experimental?platform='' \<rparr>)
     = Inr (Some (Str [])) \<and>
   getPlatformFromRequest sample_env
       (sample_request\<lparr> url := Some ''/update-manifest-experimental?platform='' \<rparr>)
     = Inl (JsError ''Error'' ''Must specify expo-platform header or query parameter'') \<and>
   getPlatformFromRequest sample_env
       (no_platform_request\<lparr> headers := \<lambda>k. if k = ''expo-platform'' then Some (Arr []) else None \<rparr>)
     = Inr [] \<and>
   query_platform logError_throws_env no_platform_request = Inr None \<and>
   headers no_platform_request ''expo-platform'' = None \<and>
   getManifestHandler logError_throws_env ''/app'' no_platform_request fresh_effects =
     (Inl (JsError ''Error'' ''logger unavailable''), fresh_effects) \<and>
   res fresh_effects = \<lparr> statusCode = 200, setHeader_calls = [], end_calls = [] \<rparr> \<and>
   fst (getManifestHandler end_throws_env ''/app'' no_platform_request fresh_effects) =
     Inl (JsError ''Error'' ''socket closed'') \<and>
   end_calls (res (snd (getManifestHandler end_throws_env ''/app'' no_platform_request
     fresh_effects))) = []"
proof -
  let ?missing = "JsError ''Error'' ''Must specify expo-platform header or query parameter''"
  have c: "getManifestResponseAsync logError_throws_env ''/app'' no_platform_request = Inl ?missing"
    by (simp add: build_defs logError_throws_env_def no_platform_request_def sample_defs)
  have d: "getManifestResponseAsync end_throws_env ''/app'' no_platform_request = Inl ?missing"
    by (simp add: build_defs end_throws_env_def no_platform_request_def sample_defs)
  have rc: "not_manifest_route logError_throws_env no_platform_request = Inr False"
    by (simp add: not_manifest_route_def logError_throws_env_def no_platform_request_def sample_defs)
  have rd: "not_manifest_route end_throws_env no_platform_request = Inr False"
    by (simp add: not_manifest_route_def end_throws_env_def no_platform_request_def sample_defs)
  have "query_platform sample_env
          (sample_request\<lparr> url := Some ''/update-manifest-experimental?platform='' \<rparr>)
        = Inr (Some (Str [])) \<and>
      getPlatformFromRequest sample_env
          (sample_request\<lparr> url := Some ''/update-manifest-experimental?platform='' \<rparr>)
        = Inl ?missing"
    by (simp add: getPlatformFromRequest_def query_platform_def sample_defs)
  moreover have "getPlatformFromRequest sample_env
       (no_platform_request\<lparr> headers := \<lambda>k. if k = ''expo-platform'' then Some (Arr []) else None \<rparr>)
     = Inr []"
    by (simp add: getPlatformFromRequest_def query_platform_def no_platform_request_def sample_defs)
  moreover have "query_platform logError_throws_env no_platform_request = Inr None \<and>
      headers no_platform_request ''expo-platform'' = None"
    by (simp add: query_platform_def logError_throws_env_def no_platform_request_def sample_defs)
  moreover have "getManifestHandler logError_throws_env ''/app'' no_platform_request fresh_effects =
     (Inl (JsError ''Error'' ''logger unavailable''), fresh_effects)"
    by (simp add: handler_on_route [OF rc] try_block_def c)
       (simp add: effect_defs logError_throws_env_def sample_defs)
  moreover have "res fresh_effects = \<lparr> statusCode = 200, setHeader_calls = [], end_calls = [] \<rparr>"
    by (simp add: fresh_effects_def)
  moreover have "fst (getManifestHandler end_throws_env ''/app'' no_platform_request fresh_effects) =
       Inl (JsError ''Error'' ''socket closed'') \<and>
     end_calls (res (snd (getManifestHandler end_throws_env ''/app'' no_platform_request
       fresh_effects))) = []"
    by (simp add: handler_on_route [OF rd] try_block_def d)
       (simp add: effect_defs end_throws_env_def sample_defs)
  ultimately show ?thesis by simp
qed

text \<open>
  C6, amended. With neither the query parameter nor the header, \<open>getPlatformFromRequest\<close>
  throws the error \<open>Must specify expo-platform header or query parameter\<close>, and on the
  manifest path, when the calls of \<open>logError\<close> and \<open>res.end\<close> in the catch block return,
  the handler resolves with status 520 and the body \<open>{ error: "Error: Must specify ..." }\<close>.
  Conversely, when \<open>url.parse\<close> accepts the URL and either source is present with a
  value other than the empty string, resolution returns \<open>String\<close> of the parameter's
  value if that one is truthy, and of the header's value otherwise: the string itself,
  or the values of a name that occurs more than once joined by commas. That string is
  empty only for an array that is empty or holds just the empty string, which Node's
  parsers do not produce (they give an array only to a name that occurs at least
  twice).
\<close>

theorem platform_resolution:
  "(query_platform e req = Inr None \<and> headers req ''expo-platform'' = None \<longrightarrow>
      getPlatformFromRequest e req =
        Inl (JsError ''Error'' ''Must specify expo-platform header or query parameter'') \<and>
      (\<forall>u pu. url req = Some u \<and> u \<noteq> [] \<and> parse e u False = Inr pu \<and>
           pathname pu = Some ''/update-manifest-experimental'' \<and>
           logError_throws e root ''expo''
             (stack e (JsError ''Error''
                ''Must specify expo-platform header or query parameter'')) = None \<and>
           end_throws e ((res st)\<lparr> statusCode := 520 \<rparr>)
             (ErrorBody ''Error: Must specify expo-platform header or query parameter'') = None \<longrightarrow>
           fst (getManifestHandler e root req st) = Inr () \<and>
           statusCode (res (snd (getManifestHandler e root req st))) = 520 \<and>
           end_calls (res (snd (getManifestHandler e root req st))) =
             end_calls (res st) @
               [ErrorBody ''Error: Must specify expo-platform header or query parameter''])) \<and>
   (\<forall>q v. query_platform e req = Inr q \<and> truthy (Some v) \<and>
        (q = Some v \<or> \<not> truthy q \<and> headers req ''expo-platform'' = Some v) \<longrightarrow>
        getPlatformFromRequest e req = Inr (String_of v)) \<and>
   (\<forall>v. String_of v = [] \<longleftrightarrow> v = Str [] \<or> v = Arr [] \<or> v = Arr [[]])"
proof -
  let ?err = "JsError ''Error'' ''Must specify expo-platform header or query parameter''"
  let ?text = "''Error: Must specify expo-platform header or query parameter''"
  have str: "Error_toString ''Error'' ''Must specify expo-platform header or query parameter'' = ?text"
    by (simp add: Error_toString_def)
  have missing: "getPlatformFromRequest e req = Inl ?err"
    if "query_platform e req = Inr None" "headers req ''expo-platform'' = None"
    using that by (simp add: getPlatformFromRequest_def)
  have handled:
    "fst (getManifestHandler e root req st) = Inr () \<and>
     statusCode (res (snd (getManifestHandler e root req st))) = 520 \<and>
     end_calls (res (snd (getManifestHandler e root req st))) = end_calls (res st) @ [ErrorBody ?text]"
    if none: "query_platform e req = Inr None" "headers req ''expo-platform'' = None"
      and route: "url req = Some u" "u \<noteq> []" "parse e u False = Inr pu"
        "pathname pu = Some ''/update-manifest-experimental''"
      and le: "logError_throws e root ''expo'' (stack e ?err) = None"
      and en: "end_throws e ((res st)\<lparr> statusCode := 520 \<rparr>) (ErrorBody ?text) = None"
    for u pu
  proof -
    have b: "getManifestResponseAsync e root req = Inl ?err"
      by (simp add: getManifestResponseAsync_def missing [OF none])
    from en have en': "end_throws e ((res st)\<lparr> statusCode := 520 \<rparr>)
        (ErrorBody (Error_toString ''Error''
           ''Must specify expo-platform header or query parameter'')) = None"
      by (simp only: str)
    from handler_on_build_Error [OF route_matched [OF route] b le en']
    show ?thesis by (simp add: str)
  qed
  have present: "getPlatformFromRequest e req = Inr (String_of v)"
    if "query_platform e req = Inr q" "truthy (Some v)"
      "q = Some v \<or> \<not> truthy q \<and> headers req ''expo-platform'' = Some v" for q v
    using that by (auto simp: getPlatformFromRequest_def)
  have nonempty: "String_of v = [] \<longleftrightarrow> v = Str [] \<or> v = Arr [] \<or> v = Arr [[]]" for v
    by (cases v) (simp_all add: join_empty)
  from missing handled present nonempty show ?thesis by blast
qed

theorem platform_resolution_witness:
  "statusCode (res (snd (getManifestHandler sample_env ''/app'' no_platform_request fresh_effects)))
     = 520 \<and>
   end_calls (res (snd (getManifestHandler sample_env ''/app'' no_platform_request fresh_effects)))
     = [ErrorBody ''Error: Must specify expo-platform header or query parameter''] \<and>
   getPlatformFromRequest sample_env sample_request = Inr ''ios'' \<and>
   getPlatformFromRequest sample_env repeated_platform_request = Inr ''ios,android'' \<and>
   getPlatformFromRequest sample_env
     (no_platform_request\<lparr> headers := \<lambda>k. if k = ''expo-platform'' then Some (Str ''android'') else None \<rparr>)
     = Inr ''android''"
proof -
  let ?h = "no_platform_request\<lparr> headers := \<lambda>k. if k = ''expo-platform'' then Some (Str ''android'') else None \<rparr>"
  have none: "query_platform sample_env no_platform_request = Inr None \<and>
              headers no_platform_request ''expo-platform'' = None"
    by (simp add: query_platform_def no_platform_request_def sample_defs)
  have eff: "logError_throws sample_env ''/app'' ''expo''
             (stack sample_env (JsError ''Error''
                ''Must specify expo-platform header or query parameter'')) = None \<and>
           end_throws sample_env ((res fresh_effects)\<lparr> statusCode := 520 \<rparr>)
             (ErrorBody ''Error: Must specify expo-platform header or query parameter'') = None"
    by (simp add: sample_env_def)
  have q: "query_platform sample_env sample_request = Inr (Some (Str ''ios'')) \<and>
           truthy (Some (Str ''ios''))"
    by (simp add: query_platform_def sample_defs)
  have r: "query_platform sample_env repeated_platform_request =
             Inr (Some (Arr [''ios'', ''android''])) \<and>
           truthy (Some (Arr [''ios'', ''android'']))"
    by (simp add: query_platform_def repeated_platform_request_def sample_defs)
  have h: "query_platform sample_env ?h = Inr None \<and> \<not> truthy None \<and>
           headers ?h ''expo-platform'' = Some (Str ''android'') \<and>
           truthy (Some (Str ''android''))"
    by (simp add: query_platform_def no_platform_request_def sample_defs)
  have e: "end_calls (res fresh_effects) = []" by (simp add: fresh_effects_def)
  have n: "''/update-manifest-experimental'' \<noteq> []" by simp
  from platform_resolution [of sample_env no_platform_request "''/app''" fresh_effects]
    none no_platform_route eff e n
  have a: "statusCode (res (snd (getManifestHandler sample_env ''/app'' no_platform_request fresh_effects)))
     = 520 \<and>
   end_calls (res (snd (getManifestHandler sample_env ''/app'' no_platform_request fresh_effects)))
     = [ErrorBody ''Error: Must specify expo-platform header or query parameter'']"
    by simp
  from platform_resolution [of sample_env sample_request "''/app''" fresh_effects] q
  have "getPlatformFromRequest sample_env sample_request = Inr (String_of (Str ''ios''))" by blast
  then have b: "getPlatformFromRequest sample_env sample_request = Inr ''ios''" by simp
  from platform_resolution [of sample_env repeated_platform_request "''/app''" fresh_effects] r
  have "getPlatformFromRequest sample_env repeated_platform_request =
          Inr (String_of (Arr [''ios'', ''android'']))" by blast
  then have c: "getPlatformFromRequest sample_env repeated_platform_request = Inr ''ios,android''"
    by simp
  from platform_resolution [of sample_env ?h "''/app''" fresh_effects] h
  have "getPlatformFromRequest sample_env ?h = Inr (String_of (Str ''android''))" by blast
  then have d: "getPlatformFromRequest sample_env ?h = Inr ''android''" by simp
  from a b c d show ?thesis by simp
qed

section \<open>The runtime version\<close>

text \<open>
  C4, as stated, maps \<open>sdkVersion\<close> whenever it is present and leaves the field out
  otherwise. A classic manifest with no \<open>runtimeVersion\<close> and the empty string as
  \<open>sdkVersion\<close> gives a document whose \<open>runtimeVersion\<close> is \<open>null\<close>, not the mapped
  value: the conditional of line 56 tests truthiness. And a classic manifest with
  neither property gives a document that has the property, with the value \<open>null\<close> of
  line 58.
\<close>

theorem runtimeVersion_null_counterexample:
  "getManifestResponseAsync (classic_env (sample_exp\<lparr> sdkVersion := Val [] \<rparr>))
       ''/app'' sample_request =
     Inr (sample_manifest\<lparr> manifest_runtimeVersion := Null,
                            extra := \<lparr> expoGoConfig = sample_exp\<lparr> sdkVersion := Val [] \<rparr> \<rparr> \<rparr>,
          fixed_headers) \<and>
   runtimeVersion (sample_exp\<lparr> sdkVersion := Val [] \<rparr>) = Undefined \<and>
   sdkVersion (sample_exp\<lparr> sdkVersion := Val [] \<rparr>) = Val [] \<and>
   Null \<noteq> Val (getRuntimeVersionForSDKVersion sample_env []) \<and>
   getManifestResponseAsync (classic_env (sample_exp\<lparr> sdkVersion := Undefined \<rparr>))
       ''/app'' sample_request =
     Inr (sample_manifest\<lparr> manifest_runtimeVersion := Null,
                            extra := \<lparr> expoGoConfig = sample_exp\<lparr> sdkVersion := Undefined \<rparr> \<rparr> \<rparr>,
          fixed_headers) \<and>
   (Null :: string js_opt) \<noteq> Undefined"
  by (simp add: getManifestResponseAsync_def getPlatformFromRequest_def query_platform_def
      classic_env_def sample_defs sample_manifest_def url_builder_def match_origin_def
      line_terminator_def resolveRuntimeVersion_def Let_def)

text \<open>
  C4, amended. The document embeds the classic manifest as \<open>extra.expoGoConfig\<close>, and
  its \<open>runtimeVersion\<close> is: the classic manifest's \<open>runtimeVersion\<close> as it is, when
  that is a value (neither \<open>undefined\<close> nor \<open>null\<close>); otherwise
  \<open>getRuntimeVersionForSDKVersion(sdkVersion)\<close>, when \<open>sdkVersion\<close> is a non-empty
  string; otherwise \<open>null\<close>.
\<close>

theorem runtimeVersion_policy:
  assumes "getManifestResponseAsync e root req = Inr (m, hs)"
  shows "(\<exists>p cl. getPlatformFromRequest e req = Inr p \<and>
            getClassicManifestResponseAsync e root p (headers req ''host'') = Inr cl \<and>
            expoGoConfig (extra m) = classic_exp cl) \<and>
         (\<forall>v. runtimeVersion (expoGoConfig (extra m)) = Val v \<longrightarrow>
              manifest_runtimeVersion m = Val v) \<and>
         (\<forall>s. runtimeVersion (expoGoConfig (extra m)) \<in> {Undefined, Null} \<and>
              sdkVersion (expoGoConfig (extra m)) = Val s \<and> s \<noteq> [] \<longrightarrow>
              manifest_runtimeVersion m = Val (getRuntimeVersionForSDKVersion e s)) \<and>
         (runtimeVersion (expoGoConfig (extra m)) \<in> {Undefined, Null} \<and>
          sdkVersion (expoGoConfig (extra m)) \<in> {Undefined, Null, Val []} \<longrightarrow>
              manifest_runtimeVersion m = Null)"
proof -
  from response_success_steps [OF assms] obtain p cl where
    p: "getPlatformFromRequest e req = Inr p" and
    cl: "getClassicManifestResponseAsync e root p (headers req ''host'') = Inr cl" and
    c: "expoGoConfig (extra m) = classic_exp cl" and
    rv: "manifest_runtimeVersion m = resolveRuntimeVersion e (classic_exp cl)"
    by auto
  have "\<exists>p cl. getPlatformFromRequest e req = Inr p \<and>
            getClassicManifestResponseAsync e root p (headers req ''host'') = Inr cl \<and>
            expoGoConfig (extra m) = classic_exp cl"
    using p cl c by blast
  moreover have "\<forall>v. runtimeVersion (expoGoConfig (extra m)) = Val v \<longrightarrow>
              manifest_runtimeVersion m = Val v"
    by (simp add: rv c resolveRuntimeVersion_def)
  moreover have "\<forall>s. runtimeVersion (expoGoConfig (extra m)) \<in> {Undefined, Null} \<and>
              sdkVersion (expoGoConfig (extra m)) = Val s \<and> s \<noteq> [] \<longrightarrow>
              manifest_runtimeVersion m = Val (getRuntimeVersionForSDKVersion e s)"
    by (auto simp: rv c resolveRuntimeVersion_def)
  moreover have "runtimeVersion (expoGoConfig (extra m)) \<in> {Undefined, Null} \<and>
          sdkVersion (expoGoConfig (extra m)) \<in> {Undefined, Null, Val []} \<longrightarrow>
              manifest_runtimeVersion m = Null"
    by (auto simp: rv c resolveRuntimeVersion_def)
  ultimately show ?thesis by blast
qed

theorem runtimeVersion_policy_witness:
  "manifest_runtimeVersion sample_manifest = Val ''exposdk:45.0.0'' \<and>
   sdkVersion (expoGoConfig (extra sample_manifest)) = Val ''45.0.0'' \<and>
   runtimeVersion (expoGoConfig (extra sample_manifest)) = Undefined"
proof -
  have "runtimeVersion (expoGoConfig (extra sample_manifest)) \<in> {Undefined, Null} \<and>
        sdkVersion (expoGoConfig (extra sample_manifest)) = Val ''45.0.0'' \<and> ''45.0.0'' \<noteq> []"
    by (simp add: sample_manifest_def sample_exp_def)
  with runtimeVersion_policy [OF sample_response] 
  have "manifest_runtimeVersion sample_manifest =
          Val (getRuntimeVersionForSDKVersion sample_env ''45.0.0'')"
    by blast
  then show ?thesis
    by (simp add: sample_env_def sample_manifest_def sample_exp_def)
qed

section \<open>Asset URLs\<close>

text \<open>
  C7, as stated, has every asset URL start with the bundle URL's origin followed by
  \<open>/assets/\<close>. What the callback prepends is what the regular expression matched, which
  runs to the first slash after \<open>://\<close> wherever that slash stands: for the bundle URL
  \<open>http://host?x=/y\<close> the asset URL in the manifest is \<open>http://host?x=/assets/icon.png\<close>,
  which does not start with \<open>http://host/assets/\<close>.
\<close>

theorem asset_url_not_origin_counterexample:
  "url_builder sample_env (Val ''http://host?x=/y'') ''icon.png'' =
     Inr ''http://host?x=/assets/icon.png'' \<and>
   getManifestResponseAsync (classic_env (sample_exp\<lparr> bundleUrl := Val ''http://host?x=/y'' \<rparr>))
       ''/app'' sample_request =
     Inr (sample_manifest\<lparr> launchAsset := \<lparr> key = ''index'',
                                           contentType = ''application/javascript'',
                                           launch_url = Val ''http://host?x=/y'' \<rparr>,
                          assets := [''http://host?x=/assets/icon.png''],
                          extra := \<lparr> expoGoConfig =
                            sample_exp\<lparr> bundleUrl := Val ''http://host?x=/y'' \<rparr> \<rparr> \<rparr>,
          fixed_headers) \<and>
   \<not> prefix ''http://host/assets/'' ''http://host?x=/assets/icon.png''"
  by (simp add: build_defs classic_env_def sample_defs sample_manifest_def)

text \<open>
  C7, amended. The URL builder returns a URL exactly when the bundle URL begins with
  \<open>http://\<close> or \<open>https://\<close>, a segment free of slashes and line terminators, and a
  slash; the URL is then that leading part, up to and including the slash, followed by
  \<open>assets/\<close> and the asset's path. (The segment is the host when a slash follows the
  host in the bundle URL.) And the assets of a manifest are what the asset collector
  returns when its callback is this builder for the bundle URL of the classic manifest,
  which is also the manifest's \<open>launchAsset.url\<close>.
\<close>

theorem url_builder_asset_url:
  "(url_builder e b path = Inr u \<longleftrightarrow>
     (\<exists>scheme seg rest. (scheme = ''http'' \<or> scheme = ''https'') \<and>
        (\<forall>c \<in> set seg. c \<noteq> CHR ''/'' \<and> \<not> line_terminator c) \<and>
        b = Val (scheme @ ''://'' @ seg @ ''/'' @ rest) \<and>
        u = scheme @ ''://'' @ seg @ ''/'' @ ''assets/'' @ path)) \<and>
   (getManifestResponseAsync e root req = Inr (m, hs) \<longrightarrow>
     (\<exists>cfg. getConfig e root = Inr cfg \<and>
        collectManifestAssets e root (config_exp cfg)
          (url_builder e (bundleUrl (expoGoConfig (extra m)))) = Inr (assets m)) \<and>
     launch_url (launchAsset m) = bundleUrl (expoGoConfig (extra m)))"
proof -
  have builder: "url_builder e b path = Inr u \<longleftrightarrow>
     (\<exists>scheme seg rest. (scheme = ''http'' \<or> scheme = ''https'') \<and>
        (\<forall>c \<in> set seg. c \<noteq> CHR ''/'' \<and> \<not> line_terminator c) \<and>
        b = Val (scheme @ ''://'' @ seg @ ''/'' @ rest) \<and>
        u = scheme @ ''://'' @ seg @ ''/'' @ ''assets/'' @ path)"
  proof (cases b)
    case (Val s)
    have "url_builder e b path = Inr u \<longleftrightarrow>
            (\<exists>p. match_origin s = Some p \<and> u = p @ ''assets/'' @ path)"
      using Val by (auto simp: url_builder_def split: option.splits)
    also have "\<dots> \<longleftrightarrow> (\<exists>scheme seg rest. (scheme = ''http'' \<or> scheme = ''https'') \<and>
        (\<forall>c \<in> set seg. c \<noteq> CHR ''/'' \<and> \<not> line_terminator c) \<and>
        s = scheme @ ''://'' @ seg @ ''/'' @ rest \<and>
        u = (scheme @ ''://'' @ seg @ ''/'') @ ''assets/'' @ path)"
      unfolding match_origin_Some by blast
    finally show ?thesis using Val by simp
  qed (simp_all add: url_builder_def)
  have manifest: "(\<exists>cfg. getConfig e root = Inr cfg \<and>
        collectManifestAssets e root (config_exp cfg)
          (url_builder e (bundleUrl (expoGoConfig (extra m)))) = Inr (assets m)) \<and>
     launch_url (launchAsset m) = bundleUrl (expoGoConfig (extra m))"
    if "getManifestResponseAsync e root req = Inr (m, hs)"
    using response_success_steps [OF that] by auto
  from builder manifest show ?thesis by blast
qed

theorem url_builder_asset_url_witness:
  "url_builder sample_env (Val ''http://localhost:19000/index.bundle?platform=ios'') ''icon.png'' =
     Inr ''http://localhost:19000/assets/icon.png'' \<and>
   collectManifestAssets sample_env ''/app'' sample_exp
     (url_builder sample_env (Val ''http://localhost:19000/index.bundle?platform=ios'')) =
     Inr [''http://localhost:19000/assets/icon.png'']"
proof -
  note t = url_builder_asset_url [of sample_env _ _ _ "''/app''" sample_request sample_manifest
      fixed_headers]
  have "\<exists>scheme seg rest. (scheme = ''http'' \<or> scheme = ''https'') \<and>
        (\<forall>c \<in> set seg. c \<noteq> CHR ''/'' \<and> \<not> line_terminator c) \<and>
        Val ''http://localhost:19000/index.bundle?platform=ios'' =
          Val (scheme @ ''://'' @ seg @ ''/'' @ rest) \<and>
        ''http://localhost:19000/assets/icon.png'' =
          scheme @ ''://'' @ seg @ ''/'' @ ''assets/'' @ ''icon.png''"
    apply (rule exI [of _ "''http''"])
    apply (rule exI [of _ "''localhost:19000''"])
    apply (rule exI [of _ "''index.bundle?platform=ios''"])
    apply (simp add: line_terminator_def)
    done
  then have a: "url_builder sample_env (Val ''http://localhost:19000/index.bundle?platform=ios'')
      ''icon.png'' = Inr ''http://localhost:19000/assets/icon.png''"
    by (rule iffD2 [OF conjunct1 [OF t]])
  from conjunct2 [OF t] sample_response
  have "\<exists>cfg. getConfig sample_env ''/app'' = Inr cfg \<and>
        collectManifestAssets sample_env ''/app'' (config_exp cfg)
          (url_builder sample_env (bundleUrl (expoGoConfig (extra sample_manifest)))) =
        Inr (assets sample_manifest)"
    by simp
  then have b: "collectManifestAssets sample_env ''/app'' sample_exp
     (url_builder sample_env (Val ''http://localhost:19000/index.bundle?platform=ios'')) =
     Inr [''http://localhost:19000/assets/icon.png'']"
    by (simp add: sample_env_def sample_manifest_def sample_exp_def)
  from a b show ?thesis by (intro conjI)
qed

text \<open>
  C8, as stated, has the asset step fail whenever the bundle URL has no such leading
  segment. The failure is raised inside the callback, so a collector that does not call
  it (a project without assets) lets \<open>getManifestResponseAsync\<close> return a document for
  the bundle URL \<open>exp://localhost:19000/index.bundle\<close>.
\<close>

theorem invalid_bundleUrl_no_assets_counterexample:
  "match_origin ''exp://localhost:19000/index.bundle'' = None \<and>
   getManifestResponseAsync (no_assets_env (Val ''exp://localhost:19000/index.bundle''))
       ''/app'' sample_request =
     Inr (sample_manifest\<lparr> launchAsset := \<lparr> key = ''index'',
                                           contentType = ''application/javascript'',
                                           launch_url = Val ''exp://localhost:19000/index.bundle'' \<rparr>,
                          assets := [],
                          extra := \<lparr> expoGoConfig =
                            sample_exp\<lparr> bundleUrl := Val ''exp://localhost:19000/index.bundle'' \<rparr> \<rparr> \<rparr>,
          fixed_headers)"
  by (simp add: no_assets_response) (simp add: match_origin_def)

text \<open>
  C8, amended. When the bundle URL does not match the regular expression, every call of
  the URL builder throws the engine's \<open>TypeError\<close> for reading \<open>[0]\<close> of \<open>null\<close>; and
  when the collector fails, with that error or another, \<open>getManifestResponseAsync\<close>
  fails with the same error: nothing at this layer recovers it.
\<close>

theorem invalid_bundleUrl_raises:
  assumes "match_origin b = None"
  shows "url_builder e (Val b) path = Inl (JsError ''TypeError'' (cannot_read e ''0'' ''null'')) \<and>
         (getPlatformFromRequest e req = Inr p \<and>
          getConfig e root = Inr cfg \<and>
          resolveEntryPoint e root p cfg = Inr ep \<and>
          getClassicManifestResponseAsync e root p (headers req ''host'') = Inr cl \<and>
          bundleUrl (classic_exp cl) = Val b \<and>
          collectManifestAssets e root (config_exp cfg) (url_builder e (Val b)) = Inl err \<longrightarrow>
          getManifestResponseAsync e root req = Inl err)"
proof -
  have "url_builder e (Val b) path = Inl (JsError ''TypeError'' (cannot_read e ''0'' ''null''))"
    using assms by (simp add: url_builder_def)
  moreover have "getManifestResponseAsync e root req = Inl err"
    if "getPlatformFromRequest e req = Inr p" "getConfig e root = Inr cfg"
       "resolveEntryPoint e root p cfg = Inr ep"
       "getClassicManifestResponseAsync e root p (headers req ''host'') = Inr cl"
       "bundleUrl (classic_exp cl) = Val b"
       "collectManifestAssets e root (config_exp cfg) (url_builder e (Val b)) = Inl err"
    using response_of_steps [OF that(1-4)] that(5,6) by simp
  ultimately show ?thesis by simp
qed

theorem invalid_bundleUrl_raises_witness:
  "url_builder exp_scheme_env (Val ''exp://localhost:19000/index.bundle'') ''icon.png'' =
     Inl (JsError ''TypeError'' ''Cannot read property '0' of null'') \<and>
   getManifestResponseAsync exp_scheme_env ''/app'' sample_request =
     Inl (JsError ''TypeError'' ''Cannot read property '0' of null'')"
proof -
  let ?b = "''exp://localhost:19000/index.bundle''"
  let ?err = "JsError ''TypeError'' ''Cannot read property '0' of null''"
  let ?cfg = "\<lparr> config_exp = sample_exp, otherConfig = () \<rparr>"
  let ?cl = "\<lparr> classic_exp = sample_exp\<lparr> bundleUrl := Val ?b \<rparr> \<rparr>"
  have m: "match_origin ?b = None" by (simp add: match_origin_def)
  have c: "cannot_read exp_scheme_env ''0'' ''null'' = ''Cannot read property '0' of null''"
    by (simp add: exp_scheme_env_def sample_env_def)
  note t = invalid_bundleUrl_raises [OF m, of exp_scheme_env "''icon.png''" sample_request
      "''ios''" "''/app''" ?cfg "''index.js''" ?cl ?err]
  from t c have u: "url_builder exp_scheme_env (Val ?b) ''icon.png'' = Inl ?err" by simp
  have p: "getPlatformFromRequest exp_scheme_env sample_request = Inr ''ios''"
    by (simp add: getPlatformFromRequest_def query_platform_def exp_scheme_env_def sample_defs)
  have steps: "getConfig exp_scheme_env ''/app'' = Inr ?cfg \<and>
      resolveEntryPoint exp_scheme_env ''/app'' ''ios'' ?cfg = Inr ''index.js'' \<and>
      getClassicManifestResponseAsync exp_scheme_env ''/app'' ''ios'' (headers sample_request ''host'')
        = Inr ?cl \<and>
      bundleUrl (classic_exp ?cl) = Val ?b"
    by (simp add: exp_scheme_env_def sample_env_def)
  have a: "collectManifestAssets exp_scheme_env ''/app'' (config_exp ?cfg)
          (url_builder exp_scheme_env (Val ?b)) = Inl ?err"
    using u by (simp add: exp_scheme_env_def sample_env_def)
  from t have "getPlatformFromRequest exp_scheme_env sample_request = Inr ''ios'' \<and>
          getConfig exp_scheme_env ''/app'' = Inr ?cfg \<and>
          resolveEntryPoint exp_scheme_env ''/app'' ''ios'' ?cfg = Inr ''index.js'' \<and>
          getClassicManifestResponseAsync exp_scheme_env ''/app'' ''ios''
            (headers sample_request ''host'') = Inr ?cl \<and>
          bundleUrl (classic_exp ?cl) = Val ?b \<and>
          collectManifestAssets exp_scheme_env ''/app'' (config_exp ?cfg)
            (url_builder exp_scheme_env (Val ?b)) = Inl ?err \<longrightarrow>
          getManifestResponseAsync exp_scheme_env ''/app'' sample_request = Inl ?err"
    by (rule conjunct2)
  then have "getManifestResponseAsync exp_scheme_env ''/app'' sample_request = Inl ?err"
    using p steps a by (elim impE) (intro conjI, simp_all)
  with u show ?thesis by (intro conjI)
qed

text \<open>
  C10. When the classic manifest has no \<open>bundleUrl\<close> and the collector returns its
  assets whatever callback it is given (it never calls the URL builder),
  \<open>getManifestResponseAsync\<close> returns a document whose \<open>launchAsset.url\<close> is
  \<open>undefined\<close>: the \<open>!\<close> of line 59 checks nothing.
\<close>

theorem missing_bundleUrl_not_checked:
  assumes "getPlatformFromRequest e req = Inr p"
    and "getConfig e root = Inr cfg"
    and "resolveEntryPoint e root p cfg = Inr ep"
    and "getClassicManifestResponseAsync e root p (headers req ''host'') = Inr cl"
    and "bundleUrl (classic_exp cl) = Undefined"
    and "\<forall>f. collectManifestAssets e root (config_exp cfg) f = Inr collected"
  shows "getManifestResponseAsync e root req =
           Inr (\<lparr> manifest_id = uuid_v4 e,
                  createdAt = toISOString e,
                  manifest_runtimeVersion = resolveRuntimeVersion e (classic_exp cl),
                  launchAsset = \<lparr> key = stripJSExtension e ep,
                                  contentType = ''application/javascript'',
                                  launch_url = Undefined \<rparr>,
                  assets = collected,
                  metadata = (),
                  extra = \<lparr> expoGoConfig = classic_exp cl \<rparr> \<rparr>,
                fixed_headers)"
  using response_of_steps [OF assms(1-4)] assms(5,6) by simp

theorem missing_bundleUrl_not_checked_witness:
  "getManifestResponseAsync (no_assets_env Undefined) ''/app'' sample_request =
     Inr (sample_manifest\<lparr> launchAsset := \<lparr> key = ''index'',
                                           contentType = ''application/javascript'',
                                           launch_url = Undefined \<rparr>,
                          assets := [],
                          extra := \<lparr> expoGoConfig = sample_exp\<lparr> bundleUrl := Undefined \<rparr> \<rparr> \<rparr>,
          fixed_headers)"
proof -
  let ?e = "no_assets_env Undefined"
  let ?cfg = "\<lparr> config_exp = sample_exp, otherConfig = () \<rparr>"
  let ?cl = "\<lparr> classic_exp = sample_exp\<lparr> bundleUrl := Undefined \<rparr> \<rparr>"
  have p: "getPlatformFromRequest ?e sample_request = Inr ''ios''"
    by (simp add: getPlatformFromRequest_def query_platform_def no_assets_env_def sample_defs)
  have cfg: "getConfig ?e ''/app'' = Inr ?cfg"
    by (simp add: no_assets_env_def sample_env_def)
  have ep: "resolveEntryPoint ?e ''/app'' ''ios'' ?cfg = Inr ''index.js''"
    by (simp add: no_assets_env_def sample_env_def)
  have cl: "getClassicManifestResponseAsync ?e ''/app'' ''ios'' (headers sample_request ''host'') = Inr ?cl"
    by (simp add: no_assets_env_def sample_env_def)
  have b: "bundleUrl (classic_exp ?cl) = Undefined" by simp
  have a: "\<forall>f. collectManifestAssets ?e ''/app'' (config_exp ?cfg) f = Inr []"
    by (simp add: no_assets_env_def sample_env_def)
  show ?thesis
    unfolding missing_bundleUrl_not_checked [OF p cfg ep cl b a]
    by (simp add: no_assets_env_def sample_defs sample_manifest_def resolveRuntimeVersion_def)
qed

end
